theory Spec2Isabelle
  imports Main "HOL-Library.List_Lexorder"
begin

section \<open>Python text\<close>

text \<open>
  A Python \<open>str\<close> is a sequence of Unicode code points, so it is modelled as a list of
  natural numbers. The fixed messages of \<open>main.py\<close> are Korean and are written out as
  their code points; ASCII literals are written with \<open>ascii\<close>.
\<close>

type_synonym pystr = "nat list"

definition ascii :: "string \<Rightarrow> pystr" where
  "ascii s = map of_char s"

text \<open>The code points that \<open>str.strip()\<close> removes (those with \<open>str.isspace()\<close>).\<close>

definition isspace :: "nat \<Rightarrow> bool" where
  "isspace c \<longleftrightarrow>
     (9 \<le> c \<and> c \<le> 13) \<or> (28 \<le> c \<and> c \<le> 32) \<or> c = 133 \<or> c = 160 \<or> c = 5760 \<or>
     (8192 \<le> c \<and> c \<le> 8202) \<or> c = 8232 \<or> c = 8233 \<or> c = 8239 \<or> c = 8287 \<or> c = 12288"

definition strip :: "pystr \<Rightarrow> pystr" where
  "strip s = rev (dropWhile isspace (rev (dropWhile isspace s)))"

definition startswith :: "pystr \<Rightarrow> pystr \<Rightarrow> bool" where
  "startswith s p \<longleftrightarrow> take (length p) s = p"

text \<open>
  \<open>str_remove old s\<close> is \<open>s.replace(old, "")\<close>: every non-overlapping occurrence of
  \<open>old\<close>, found from the left, is deleted. With an empty \<open>old\<close> Python returns \<open>s\<close>.
\<close>

function str_remove :: "pystr \<Rightarrow> pystr \<Rightarrow> pystr" where
  "str_remove old [] = []"
| "str_remove old (c # cs) =
     (if old \<noteq> [] \<and> take (length old) (c # cs) = old
      then str_remove old (drop (length old) (c # cs))
      else c # str_remove old cs)"
  by pat_completeness auto
termination
  by (relation "measure (\<lambda>(old, s). length s)") auto

definition FENCE :: pystr where
  \<open>FENCE = ascii ''```''\<close>

definition FENCE_JSON :: pystr where
  \<open>FENCE_JSON = ascii ''```json''\<close>

text \<open>Lines 86 to 88 of \<open>main.py\<close>: the text handed to \<open>json.loads\<close>.\<close>

definition strip_fences :: "pystr \<Rightarrow> pystr" where
  "strip_fences response_text =
     (let text_res = strip response_text
      in if startswith text_res FENCE
         then str_remove FENCE (str_remove FENCE_JSON text_res)
         else text_res)"

section \<open>JSON values and the response of the grader\<close>

text \<open>
  The objects \<open>json.loads\<close> can return. A Python \<open>float\<close> is kept opaque. A \<open>dict\<close> is
  the list of its items; \<open>dict.get\<close> is \<open>map_of\<close> on it.
\<close>

typedecl pyfloat

datatype json =
    JNull
  | JBool bool
  | JInt int
  | JFloat pyfloat
  | JStr pystr
  | JList "json list"
  | JObj "(pystr \<times> json) list"

text \<open>
  \<open>json.loads\<close> belongs to the Python library, so the worker is modelled over any
  decoder; \<open>None\<close> stands for \<open>JSONDecodeError\<close>.
\<close>

type_synonym decoder = "pystr \<Rightarrow> json option"

datatype exn =
    GraderError
  | JSONDecodeError
  | AttributeError
  | KeyError
  | BindError
  | StaleDataError
  | QueueValueError

text \<open>"feedback generation failed", the default of line 95.\<close>

definition DEFAULT_FEEDBACK :: pystr where
  "DEFAULT_FEEDBACK = [54588, 46300, 48177, 32, 49373, 49457, 32, 49892, 54056]"

text \<open>The message of the failure path, line 108.\<close>

definition FAILURE_MESSAGE :: pystr where
  "FAILURE_MESSAGE =
     [49436, 48260, 32, 49324, 50857, 47049, 51060, 32, 47566, 50500, 32, 52292, 51216,
      50640, 32, 49892, 54056, 54664, 49845, 45768, 45796, 46, 32, 51104, 49884, 32, 54980,
      32, 45796, 49884, 32, 49884, 46020, 54644, 51452, 49464, 50836, 46]"

text \<open>The placeholder a new submission carries, line 224.\<close>

definition QUEUED_MESSAGE :: pystr where
  "QUEUED_MESSAGE =
     [52292, 51216, 32, 45824, 44592, 50676, 50640, 32, 46321, 47197, 46104, 50632, 49845,
      45768, 45796, 46, 32, 51104, 49884, 47564, 32, 44592, 45796, 47140, 51452, 49464,
      50836, 46, 46, 46]"

text \<open>Lines 91 and 92: a list answer stands for its first element, an empty one for \<open>{}\<close>.\<close>

definition unwrap_list :: "json \<Rightarrow> json" where
  "unwrap_list res_json =
     (case res_json of
        JList [] \<Rightarrow> JObj []
      | JList (x # _) \<Rightarrow> x
      | _ \<Rightarrow> res_json)"

text \<open>\<open>res_json.get(key, default)\<close>: only a \<open>dict\<close> has the method.\<close>

definition dict_get :: "json \<Rightarrow> pystr \<Rightarrow> json \<Rightarrow> exn + json" where
  "dict_get res_json key dflt =
     (case res_json of
        JObj items \<Rightarrow> (case map_of items key of Some v \<Rightarrow> Inr v | None \<Rightarrow> Inr dflt)
      | _ \<Rightarrow> Inl AttributeError)"

text \<open>Lines 86 to 95: from the response text to the score and the feedback to store.\<close>

definition parse_response :: "decoder \<Rightarrow> pystr \<Rightarrow> exn + (json \<times> json)" where
  "parse_response loads response_text =
     (case loads (strip_fences response_text) of
        None \<Rightarrow> Inl JSONDecodeError
      | Some parsed \<Rightarrow>
          (let res_json = unwrap_list parsed
           in case dict_get res_json (ascii ''score'') (JInt 0) of
                Inl e \<Rightarrow> Inl e
              | Inr sc \<Rightarrow>
                  (case dict_get res_json (ascii ''feedback'') (JStr DEFAULT_FEEDBACK) of
                     Inl e \<Rightarrow> Inl e
                   | Inr fb \<Rightarrow> Inr (sc, fb))))"

section \<open>The tables, the problem catalog and the queue\<close>

text \<open>The table models of \<open>models.py\<close>; the fields of each table carry a prefix.\<close>

record course =
  course_id :: int
  course_name :: pystr

record classroom =
  classroom_id :: int
  cl_course_id :: int
  cl_name :: pystr
  active_chapter :: pystr
  is_active :: bool

record student =
  st_id :: int
  st_classroom_id :: int
  student_number :: pystr
  st_name :: pystr
  st_created_at :: nat

text \<open>
  A row of the table: \<open>score\<close> is \<open>Optional[int]\<close>, \<open>ai_feedback\<close> is \<open>Optional[str]\<close>,
  \<open>created_at\<close> is a time stamp.
\<close>

record submission =
  sub_id :: int
  student_id :: int
  problem_id :: int
  code_answer :: pystr
  ai_feedback :: "pystr option"
  score :: "int option"
  status :: pystr
  created_at :: nat

definition GRADING :: pystr where
  "GRADING = ascii ''grading''"

definition COMPLETED :: pystr where
  "COMPLETED = ascii ''completed''"

text \<open>
  An entry of \<open>problems.yaml\<close>. A key that the entry may lack is an option; \<open>p['key']\<close>
  on \<open>None\<close> raises \<open>KeyError\<close>.
\<close>

record problem =
  p_id :: int
  p_title :: "pystr option"
  p_description :: "pystr option"
  p_ai_prompt :: "pystr option"
  p_chapter :: "pystr option"
  p_course_name :: "pystr option"

text \<open>The mapping read from \<open>problems.yaml\<close>: course name to problems, in file order.\<close>

type_synonym catalog = "(pystr \<times> problem list) list"

text \<open>Lines 51 to 56: every problem learns its course; a later entry of an id wins.\<close>

definition PROBLEMS_BY_COURSE :: "catalog \<Rightarrow> catalog" where
  "PROBLEMS_BY_COURSE raw_data =
     map (\<lambda>(name, p_list). (name, map (\<lambda>p. p\<lparr>p_course_name := Some name\<rparr>) p_list)) raw_data"

definition PROBLEMS_DICT :: "catalog \<Rightarrow> int \<Rightarrow> problem option" where
  "PROBLEMS_DICT raw_data =
     map_of (rev (concat (map (\<lambda>(name, p_list). map (\<lambda>p. (p_id p, p)) p_list)
                              (PROBLEMS_BY_COURSE raw_data))))"

definition CHAPTERS_BY_COURSE :: "catalog \<Rightarrow> (pystr \<times> pystr list) list" where
  "CHAPTERS_BY_COURSE raw_data =
     map (\<lambda>(name, p_list).
            (name, sort (remdups (map (\<lambda>p. case p_chapter p of
                                              None \<Rightarrow> ascii ''Unknown''
                                            | Some c \<Rightarrow> c) p_list))))
         raw_data"

text \<open>A grading job: submission id, problem, code.\<close>

type_synonym job = "int \<times> problem \<times> pystr"

text \<open>
  The prompt of lines 74 to 82 is a fixed template around four texts, so only these are
  kept.
\<close>

datatype prompt = Prompt pystr pystr pystr pystr

definition build_prompt :: "problem \<Rightarrow> pystr \<Rightarrow> exn + prompt" where
  "build_prompt problem_info code =
     (case p_title problem_info of
        None \<Rightarrow> Inl KeyError
      | Some title \<Rightarrow>
          (case p_description problem_info of
             None \<Rightarrow> Inl KeyError
           | Some description \<Rightarrow>
               (case p_ai_prompt problem_info of
                  None \<Rightarrow> Inl KeyError
                | Some criteria \<Rightarrow> Inr (Prompt title description criteria code))))"

text \<open>
  Where the worker task stands: suspended in \<open>submission_queue.get()\<close>, suspended in the
  call of the grader for a submission, suspended in \<open>asyncio.sleep(6.5)\<close>, or ended by an
  exception that left the loop.
\<close>

datatype worker_pc = Idle | Calling int prompt | Sleeping | Dead

record state =
  courses :: "course list"
  classrooms :: "classroom list"
  students :: "student list"
  submissions :: "submission list"
  submission_queue :: "job list"
  unfinished_tasks :: int
  worker :: worker_pc

definition init_state :: state where
  "init_state =
     \<lparr>courses = [], classrooms = [], students = [], submissions = [],
      submission_queue = [], unfinished_tasks = 0, worker = Idle\<rparr>"

subsection \<open>The store\<close>

text \<open>
  Modelled from the spec: the persistence collaborator (\<open>database.py\<close> and its engine are
  not among the sources). Section 4.4 asks of it \<open>create\<close>, \<open>get\<close> by id with a not-found
  answer, and \<open>update\<close> as a replacement of the mutable fields. A table is the list of its
  rows in insertion order; a new row gets the id after the largest one in use.
\<close>

text \<open>
  The table model does not validate an assignment, so the worker may assign any decoded
  object to \<open>score\<close> and \<open>ai_feedback\<close>; what becomes of it is decided at the commit.
  The database either raises (a \<open>dict\<close>, a \<open>list\<close> or an integer beyond 64 bits cannot be
  bound) or keeps a value of the column's type. Which of the two it does with a given
  object is its own business: the worker is modelled over any such database.
\<close>

record database =
  bind_score :: "json \<Rightarrow> exn + int option"
  bind_feedback :: "json \<Rightarrow> exn + pystr option"

definition fresh_id :: "int list \<Rightarrow> int" where
  "fresh_id ids = fold max ids 0 + 1"

definition get_submission :: "submission list \<Rightarrow> int \<Rightarrow> submission option" where
  "get_submission rows i = find (\<lambda>r. sub_id r = i) rows"

definition update_submission ::
  "int \<Rightarrow> (submission \<Rightarrow> submission) \<Rightarrow> submission list \<Rightarrow> submission list" where
  "update_submission i f rows = map (\<lambda>r. if sub_id r = i then f r else r) rows"

definition get_course :: "course list \<Rightarrow> int \<Rightarrow> course option" where
  "get_course rows i = find (\<lambda>r. course_id r = i) rows"

definition get_classroom :: "classroom list \<Rightarrow> int \<Rightarrow> classroom option" where
  "get_classroom rows i = find (\<lambda>r. classroom_id r = i) rows"

definition get_student :: "student list \<Rightarrow> int \<Rightarrow> student option" where
  "get_student rows i = find (\<lambda>r. st_id r = i) rows"

subsection \<open>The queue\<close>

text \<open>
  \<open>asyncio.Queue\<close> without a bound: \<open>put\<close> appends and counts one more unfinished task;
  \<open>task_done\<close> raises \<open>ValueError\<close> when no unfinished task is left to count down.
\<close>

definition put :: "job \<Rightarrow> state \<Rightarrow> state" where
  "put item s =
     s\<lparr>submission_queue := submission_queue s @ [item],
       unfinished_tasks := unfinished_tasks s + 1\<rparr>"

definition task_done :: "state \<Rightarrow> exn + state" where
  "task_done s =
     (if unfinished_tasks s \<le> 0 then Inl QueueValueError
      else Inr (s\<lparr>unfinished_tasks := unfinished_tasks s - 1\<rparr>))"

section \<open>The grading worker\<close>

text \<open>
  One pass of the loop of \<open>process_submission_queue\<close> is cut at its suspension points:
  \<open>worker_dequeue\<close> runs from the return of \<open>get()\<close> to the call of the grader,
  \<open>worker_receive\<close> from the grader's answer to the sleep, \<open>worker_wake\<close> ends the sleep.
\<close>

text \<open>Lines 113 to 116. An exception of \<open>task_done\<close> leaves the loop before the sleep.\<close>

definition finally_block :: "state \<Rightarrow> state" where
  "finally_block s =
     (case task_done s of
        Inl e \<Rightarrow> s\<lparr>worker := Dead\<rparr>
      | Inr s' \<Rightarrow> s'\<lparr>worker := Sleeping\<rparr>)"

definition mark_failed :: "submission \<Rightarrow> submission" where
  "mark_failed sub =
     sub\<lparr>score := Some 0, ai_feedback := Some FAILURE_MESSAGE, status := COMPLETED\<rparr>"

text \<open>
  Lines 102 to 111, the handler of \<open>except Exception\<close>. It assigns an \<open>int\<close> and a
  \<open>str\<close> literal, which are values of the columns.
\<close>

definition except_block :: "int \<Rightarrow> state \<Rightarrow> state" where
  "except_block submission_id s =
     (case get_submission (submissions s) submission_id of
        None \<Rightarrow> s
      | Some _ \<Rightarrow>
          s\<lparr>submissions := update_submission submission_id mark_failed (submissions s)\<rparr>)"

text \<open>
  Lines 63 to 82. On a missing row the code calls \<open>task_done()\<close> and then \<open>continue\<close>,
  which still runs the \<open>finally\<close> block; an exception in the \<open>try\<close> body goes to the
  handler and then to \<open>finally\<close>.
\<close>

definition worker_dequeue :: "state \<Rightarrow> state" where
  "worker_dequeue s =
     (case worker s of
        Idle \<Rightarrow>
          (case submission_queue s of
             [] \<Rightarrow> s
           | (submission_id, problem_info, code) # rest \<Rightarrow>
               (let s1 = s\<lparr>submission_queue := rest\<rparr>
                in case get_submission (submissions s1) submission_id of
                     None \<Rightarrow>
                       (case task_done s1 of
                          Inl e \<Rightarrow> finally_block (except_block submission_id s1)
                        | Inr s2 \<Rightarrow> finally_block s2)
                   | Some _ \<Rightarrow>
                       (case build_prompt problem_info code of
                          Inl e \<Rightarrow> finally_block (except_block submission_id s1)
                        | Inr p \<Rightarrow> s1\<lparr>worker := Calling submission_id p\<rparr>)))
      | _ \<Rightarrow> s)"

text \<open>
  Lines 94 to 99: the assignments and the commit. The commit raises when the database
  cannot bind the score or the feedback, or when the row loaded before the call is gone.
\<close>

definition apply_result :: "database \<Rightarrow> int \<Rightarrow> json \<Rightarrow> json \<Rightarrow> state \<Rightarrow> exn + state" where
  "apply_result db submission_id sc fb s =
     (case bind_score db sc of
        Inl e \<Rightarrow> Inl e
      | Inr stored_score \<Rightarrow>
          (case bind_feedback db fb of
             Inl e \<Rightarrow> Inl e
           | Inr stored_feedback \<Rightarrow>
               (case get_submission (submissions s) submission_id of
                  None \<Rightarrow> Inl StaleDataError
                | Some _ \<Rightarrow>
                    Inr (s\<lparr>submissions :=
                             update_submission submission_id
                               (\<lambda>sub. sub\<lparr>score := stored_score,
                                           ai_feedback := stored_feedback,
                                           status := COMPLETED\<rparr>)
                               (submissions s)\<rparr>))))"

text \<open>
  Lines 85 to 116. The answer of the grader is an exception (of the call or of
  \<open>response.text\<close>) or the response text.
\<close>

definition worker_receive :: "database \<Rightarrow> decoder \<Rightarrow> exn + pystr \<Rightarrow> state \<Rightarrow> state" where
  "worker_receive db loads response s =
     (case worker s of
        Calling submission_id p \<Rightarrow>
          (case response of
             Inl e \<Rightarrow> finally_block (except_block submission_id s)
           | Inr response_text \<Rightarrow>
               (case parse_response loads response_text of
                  Inl e \<Rightarrow> finally_block (except_block submission_id s)
                | Inr (sc, fb) \<Rightarrow>
                    (case apply_result db submission_id sc fb s of
                       Inl e \<Rightarrow> finally_block (except_block submission_id s)
                     | Inr s' \<Rightarrow> finally_block s')))
      | _ \<Rightarrow> s)"

definition worker_wake :: "state \<Rightarrow> state" where
  "worker_wake s = (case worker s of Sleeping \<Rightarrow> s\<lparr>worker := Idle\<rparr> | _ \<Rightarrow> s)"

section \<open>The request handlers\<close>

text \<open>
  What a handler answers when it does not return: an \<open>HTTPException\<close> with its status
  code, or an exception nobody handles (the framework answers 500).
\<close>

datatype failure = HTTPException nat | Unhandled exn

record submit_request =
  req_student_id :: int
  req_problem_id :: int
  req_code_answer :: pystr

text \<open>Lines 221 to 226: the new row, committed; \<open>now\<close> is the clock read for \<open>created_at\<close>.\<close>

definition create_submission :: "nat \<Rightarrow> submit_request \<Rightarrow> state \<Rightarrow> submission \<times> state" where
  "create_submission now req s =
     (let submission =
            \<lparr>sub_id = fresh_id (map sub_id (submissions s)),
             student_id = req_student_id req,
             problem_id = req_problem_id req,
             code_answer = req_code_answer req,
             ai_feedback = Some QUEUED_MESSAGE,
             score = None,
             status = GRADING,
             created_at = now\<rparr>
      in (submission, s\<lparr>submissions := submissions s @ [submission]\<rparr>))"

text \<open>Lines 215 to 231: the answer and the state the handler leaves.\<close>

definition submit ::
  "catalog \<Rightarrow> nat \<Rightarrow> submit_request \<Rightarrow> state \<Rightarrow> (failure + submission) \<times> state" where
  "submit raw_data now req s =
     (case PROBLEMS_DICT raw_data (req_problem_id req) of
        None \<Rightarrow> (Inl (HTTPException 404), s)
      | Some problem \<Rightarrow>
          (case create_submission now req s of
             (submission, s1) \<Rightarrow>
               (Inr submission, put (sub_id submission, problem, req_code_answer req) s1)))"

text \<open>Lines 234 to 239.\<close>

definition check_submission :: "int \<Rightarrow> state \<Rightarrow> failure + submission" where
  "check_submission submission_id s =
     (case get_submission (submissions s) submission_id of
        None \<Rightarrow> Inl (HTTPException 404)
      | Some sub \<Rightarrow> Inr sub)"

text \<open>Lines 154 to 163.\<close>

fun add_classrooms :: "int \<Rightarrow> pystr \<Rightarrow> pystr list \<Rightarrow> classroom list \<Rightarrow> classroom list" where
  "add_classrooms cid def_chap [] rows = rows"
| "add_classrooms cid def_chap (name # names) rows =
     add_classrooms cid def_chap names
       (rows @ [\<lparr>classroom_id = fresh_id (map classroom_id rows), cl_course_id = cid,
                 cl_name = name, active_chapter = def_chap, is_active = False\<rparr>])"

definition setup_system :: "catalog \<Rightarrow> pystr \<Rightarrow> pystr list \<Rightarrow> state \<Rightarrow> state" where
  "setup_system raw_data req_course_name req_class_names s =
     (let course = \<lparr>course_id = fresh_id (map course_id (courses s)),
                    course_name = req_course_name\<rparr>;
          chapters = (case map_of (CHAPTERS_BY_COURSE raw_data) req_course_name of
                        None \<Rightarrow> []
                      | Some cs \<Rightarrow> cs);
          def_chap = (case chapters of [] \<Rightarrow> [] | c # _ \<Rightarrow> c)
      in s\<lparr>courses := courses s @ [course],
           classrooms := add_classrooms (course_id course) def_chap req_class_names
                           (classrooms s)\<rparr>)"

text \<open>
  Lines 175 to 183, the writes of \<open>login\<close>; what it answers afterwards does not change
  the state.
\<close>

definition login :: "nat \<Rightarrow> int \<Rightarrow> pystr \<Rightarrow> pystr \<Rightarrow> state \<Rightarrow> state" where
  "login now req_classroom_id req_student_number req_name s =
     (case find (\<lambda>r. student_number r = req_student_number) (students s) of
        None \<Rightarrow>
          s\<lparr>students := students s @
               [\<lparr>st_id = fresh_id (map st_id (students s)),
                 st_classroom_id = req_classroom_id,
                 student_number = req_student_number,
                 st_name = req_name,
                 st_created_at = now\<rparr>]\<rparr>
      | Some student \<Rightarrow>
          s\<lparr>students :=
               map (\<lambda>r. if st_id r = st_id student
                        then r\<lparr>st_classroom_id := req_classroom_id, st_name := req_name\<rparr>
                        else r)
                   (students s)\<rparr>)"

text \<open>Lines 242 to 249.\<close>

definition activate_class :: "int \<Rightarrow> state \<Rightarrow> state" where
  "activate_class req_classroom_id s =
     s\<lparr>classrooms :=
         map (\<lambda>cls. if classroom_id cls = req_classroom_id then cls\<lparr>is_active := True\<rparr> else cls)
             (map (\<lambda>cls. cls\<lparr>is_active := False\<rparr>) (classrooms s))\<rparr>"

text \<open>Lines 251 to 256.\<close>

definition update_progress :: "int \<Rightarrow> pystr \<Rightarrow> state \<Rightarrow> failure + state" where
  "update_progress req_classroom_id req_active_chapter s =
     (case get_classroom (classrooms s) req_classroom_id of
        None \<Rightarrow> Inl (HTTPException 404)
      | Some _ \<Rightarrow>
          Inr (s\<lparr>classrooms :=
                   map (\<lambda>cls. if classroom_id cls = req_classroom_id
                              then cls\<lparr>active_chapter := req_active_chapter\<rparr>
                              else cls)
                       (classrooms s)\<rparr>))"

section \<open>The views\<close>

text \<open>
  \<open>order_by(Submission.created_at.desc())\<close>. The order of rows with equal time stamps is
  left to the database; here the row inserted later comes first.
\<close>

definition order_by_created_at_desc :: "submission list \<Rightarrow> submission list" where
  "order_by_created_at_desc rows = rev (sort_key created_at rows)"

definition course_problems :: "catalog \<Rightarrow> pystr \<Rightarrow> problem list" where
  "course_problems raw_data name =
     (case map_of (PROBLEMS_BY_COURSE raw_data) name of None \<Rightarrow> [] | Some p_list \<Rightarrow> p_list)"

text \<open>Lines 196 and 264: \<open>p['chapter']\<close> raises for a problem without the key.\<close>

fun target_problems :: "pystr \<Rightarrow> problem list \<Rightarrow> exn + problem list" where
  "target_problems chapter [] = Inr []"
| "target_problems chapter (p # ps) =
     (case p_chapter p of
        None \<Rightarrow> Inl KeyError
      | Some c \<Rightarrow>
          (case target_problems chapter ps of
             Inl e \<Rightarrow> Inl e
           | Inr rest \<Rightarrow> Inr (if c = chapter then p # rest else rest)))"

text \<open>Lines 200 to 202: the first row met for a problem stays.\<close>

fun build_sub_map ::
  "submission list \<Rightarrow> (int \<Rightarrow> submission option) \<Rightarrow> (int \<Rightarrow> submission option)" where
  "build_sub_map [] sub_map = sub_map"
| "build_sub_map (sub # subs) sub_map =
     build_sub_map subs
       (if sub_map (problem_id sub) = None then sub_map(problem_id sub \<mapsto> sub) else sub_map)"

datatype enriched =
    NoSubmission problem
  | LastSubmission problem pystr "int option" "pystr option" pystr

definition enrich :: "(int \<Rightarrow> submission option) \<Rightarrow> problem \<Rightarrow> enriched" where
  "enrich sub_map p =
     (case sub_map (p_id p) of
        None \<Rightarrow> NoSubmission p
      | Some s \<Rightarrow> LastSubmission p (code_answer s) (score s) (ai_feedback s) (status s))"

text \<open>Lines 188 to 213.\<close>

definition get_problems ::
  "catalog \<Rightarrow> int \<Rightarrow> state \<Rightarrow> failure + (pystr \<times> enriched list)" where
  "get_problems raw_data the_student_id s =
     (case get_student (students s) the_student_id of
        None \<Rightarrow> Inl (HTTPException 404)
      | Some student \<Rightarrow>
      (case get_classroom (classrooms s) (st_classroom_id student) of
        None \<Rightarrow> Inl (Unhandled AttributeError)
      | Some classroom \<Rightarrow>
      (case get_course (courses s) (cl_course_id classroom) of
        None \<Rightarrow> Inl (Unhandled AttributeError)
      | Some course \<Rightarrow>
      (case target_problems (active_chapter classroom)
              (course_problems raw_data (course_name course)) of
        Inl e \<Rightarrow> Inl (Unhandled e)
      | Inr targets \<Rightarrow>
          (let p_ids = map p_id targets;
               subs = order_by_created_at_desc
                        (filter (\<lambda>sub. student_id sub = the_student_id \<and>
                                       problem_id sub \<in> set p_ids)
                                (submissions s));
               sub_map = build_sub_map subs Map.empty
           in Inr (active_chapter classroom, map (enrich sub_map) targets))))))"

text \<open>Lines 269 to 272: one map per student, the first row met for a problem stays.\<close>

fun build_status_map ::
  "submission list \<Rightarrow> (int \<Rightarrow> (int \<Rightarrow> submission option) option) \<Rightarrow>
   (int \<Rightarrow> (int \<Rightarrow> submission option) option)" where
  "build_status_map [] sub_map = sub_map"
| "build_status_map (sub # subs) sub_map =
     build_status_map subs
       (case sub_map (student_id sub) of
          None \<Rightarrow> sub_map(student_id sub \<mapsto> Map.empty(problem_id sub \<mapsto> sub))
        | Some inner \<Rightarrow>
            (if inner (problem_id sub) = None
             then sub_map(student_id sub \<mapsto> inner(problem_id sub \<mapsto> sub))
             else sub_map))"

record cell =
  cell_id :: "int option"
  cell_status :: pystr
  cell_score :: "int option"
  cell_feedback :: "pystr option"
  cell_code :: pystr

text \<open>Lines 277 to 282.\<close>

definition status_item ::
  "(int \<Rightarrow> (int \<Rightarrow> submission option) option) \<Rightarrow> int \<Rightarrow> int \<Rightarrow> submission option" where
  "status_item sub_map sid pid =
     (case sub_map sid of None \<Rightarrow> None | Some inner \<Rightarrow> inner pid)"

definition status_cell :: "submission option \<Rightarrow> cell" where
  "status_cell item =
     (case item of
        None \<Rightarrow>
          \<lparr>cell_id = None, cell_status = ascii ''none'', cell_score = Some 0,
           cell_feedback = Some [], cell_code = []\<rparr>
      | Some i \<Rightarrow>
          \<lparr>cell_id = Some (sub_id i), cell_status = status i, cell_score = score i,
           cell_feedback = ai_feedback i, cell_code = code_answer i\<rparr>)"

text \<open>
  Lines 258 to 284. The answer holds a row for each student (the info text and a cell
  for each target problem), the target problems and the chapter.
\<close>

definition get_status ::
  "catalog \<Rightarrow> int \<Rightarrow> state \<Rightarrow>
   failure + ((pystr \<times> (int \<times> cell) list) list \<times> problem list \<times> pystr option)" where
  "get_status raw_data the_classroom_id s =
     (case get_classroom (classrooms s) the_classroom_id of
        None \<Rightarrow> Inr ([], [], None)
      | Some classroom \<Rightarrow>
      (case get_course (courses s) (cl_course_id classroom) of
        None \<Rightarrow> Inl (Unhandled AttributeError)
      | Some course \<Rightarrow>
      (case target_problems (active_chapter classroom)
              (course_problems raw_data (course_name course)) of
        Inl e \<Rightarrow> Inl (Unhandled e)
      | Inr targets \<Rightarrow>
          (let p_ids = map p_id targets;
               studs = filter (\<lambda>st. st_classroom_id st = the_classroom_id) (students s);
               s_ids = map st_id studs;
               subs = order_by_created_at_desc
                        (filter (\<lambda>sub. student_id sub \<in> set s_ids \<and>
                                       problem_id sub \<in> set p_ids)
                                (submissions s));
               sub_map = build_status_map subs Map.empty
           in Inr (map (\<lambda>st. (student_number st @ [32] @ st_name st,
                               map (\<lambda>p. (p_id p, status_cell (status_item sub_map (st_id st) (p_id p))))
                                   targets))
                       studs,
                   targets, Some (active_chapter classroom))))))"

section \<open>The system as a state machine\<close>

text \<open>
  Handlers and the worker are tasks of one event loop, so each runs alone between two of
  its suspension points. A step is one handler that writes, or one of the three pieces of
  the worker loop; what the grader answers is not determined by the state.
\<close>

datatype event = Submit | Setup | Login | Activate | Progress | Dequeue | Receive | Wake

definition by_worker :: "event \<Rightarrow> bool" where
  "by_worker e \<longleftrightarrow> e = Dequeue \<or> e = Receive"

inductive step ::
  "catalog \<Rightarrow> database \<Rightarrow> decoder \<Rightarrow> state \<Rightarrow> event \<Rightarrow> state \<Rightarrow> bool"
  for raw_data :: catalog and db :: database and loads :: decoder where
  submit_step: "step raw_data db loads s Submit (snd (submit raw_data now req s))"
| setup_step: "step raw_data db loads s Setup (setup_system raw_data cname cnames s)"
| login_step: "step raw_data db loads s Login (login now cid number name s)"
| activate_step: "step raw_data db loads s Activate (activate_class cid s)"
| progress_step: "update_progress cid new_chapter s = Inr s' \<Longrightarrow>
     step raw_data db loads s Progress s'"
| dequeue_step: "worker s = Idle \<Longrightarrow> submission_queue s \<noteq> [] \<Longrightarrow>
     step raw_data db loads s Dequeue (worker_dequeue s)"
| receive_step: "worker s = Calling sid p \<Longrightarrow>
     step raw_data db loads s Receive (worker_receive db loads response s)"
| wake_step: "worker s = Sleeping \<Longrightarrow> step raw_data db loads s Wake (worker_wake s)"

inductive run :: "catalog \<Rightarrow> database \<Rightarrow> decoder \<Rightarrow> state \<Rightarrow> state \<Rightarrow> bool"
  for raw_data :: catalog and db :: database and loads :: decoder and s :: state where
  run_refl: "run raw_data db loads s s"
| run_step: "run raw_data db loads s t \<Longrightarrow> step raw_data db loads t e u \<Longrightarrow>
     run raw_data db loads s u"

definition reachable :: "catalog \<Rightarrow> database \<Rightarrow> decoder \<Rightarrow> state \<Rightarrow> bool" where
  "reachable raw_data db loads s \<longleftrightarrow> run raw_data db loads init_state s"

section \<open>Failed answers\<close>

text \<open>\<open>res_json.get(key, default)\<close> on the items of a \<open>dict\<close>.\<close>

definition items_get :: "(pystr \<times> json) list \<Rightarrow> pystr \<Rightarrow> json \<Rightarrow> json" where
  "items_get items key dflt = (case map_of items key of None \<Rightarrow> dflt | Some v \<Rightarrow> v)"

text \<open>
  The answers of the grader that send \<open>worker_receive\<close> to the handler of
  \<open>except Exception\<close>: an exception of the call, a text that \<open>json.loads\<close> rejects, a
  decoded value that is (after a list gave way to its first element) no \<open>dict\<close>, or a
  \<open>dict\<close> whose score or feedback the database cannot bind.
\<close>

definition grading_fails :: "database \<Rightarrow> decoder \<Rightarrow> exn + pystr \<Rightarrow> bool" where
  "grading_fails db loads response =
     (case response of
        Inl e \<Rightarrow> True
      | Inr response_text \<Rightarrow>
          (case loads (strip_fences response_text) of
             None \<Rightarrow> True
           | Some parsed \<Rightarrow>
               (case unwrap_list parsed of
                  JObj items \<Rightarrow>
                    (case bind_score db (items_get items (ascii ''score'') (JInt 0)) of
                       Inl e \<Rightarrow> True
                     | Inr _ \<Rightarrow>
                         (case bind_feedback db
                                 (items_get items (ascii ''feedback'') (JStr DEFAULT_FEEDBACK)) of
                            Inl e \<Rightarrow> True
                          | Inr _ \<Rightarrow> False))
                | _ \<Rightarrow> True)))"

section \<open>Fenced responses\<close>

text \<open>The white space of JSON: blank, tab, line feed, carriage return.\<close>

definition json_ws :: "nat \<Rightarrow> bool" where
  "json_ws c \<longleftrightarrow> c = 32 \<or> c = 9 \<or> c = 10 \<or> c = 13"

text \<open>
  A text between the markers \<open>```json\<close> and \<open>```\<close>, with \<open>pre\<close> and \<open>post\<close> (line ends,
  as a rule) between the markers and the text.
\<close>

definition wrap_fence :: "pystr \<Rightarrow> pystr \<Rightarrow> pystr \<Rightarrow> pystr" where
  "wrap_fence pre post t = FENCE_JSON @ pre @ t @ post @ FENCE"

text \<open>\<open>contains old s\<close> is Python's \<open>old in s\<close>.\<close>

fun contains :: "pystr \<Rightarrow> pystr \<Rightarrow> bool" where
  "contains old [] \<longleftrightarrow> old = []"
| "contains old (c # cs) \<longleftrightarrow> startswith (c # cs) old \<or> contains old cs"

section \<open>Sample data\<close>

text \<open>
  Concrete inputs on which the theorems below are run. \<open>sample_loads\<close> answers as
  \<open>json.loads\<close> does on the eight texts it knows (with blanks, tabs and line ends
  around them, which JSON ignores) and rejects every other text. \<open>sample_db\<close> keeps
  \<open>None\<close>, an integer of 64 bits in the integer column and a string in the text column,
  and raises for every other object.
\<close>

definition json_trim :: "pystr \<Rightarrow> pystr" where
  "json_trim s = rev (dropWhile json_ws (rev (dropWhile json_ws s)))"

definition good_answer :: json where
  "good_answer = JObj [(ascii ''score'', JInt 90), (ascii ''feedback'', JStr (ascii ''good''))]"

definition sample_loads :: decoder where
  \<open>sample_loads response_text =
     (let t = json_trim response_text
      in if t = ascii ''[]'' then Some (JList [])
         else if t = ascii ''{"score":90,"feedback":"good"}'' then Some good_answer
         else if t = ascii ''[{"score":90,"feedback":"good"}]'' then Some (JList [good_answer])
         else if t = ascii ''{"score": 90}'' then Some (JObj [(ascii ''score'', JInt 90)])
         else if t = ascii ''{"score": 150, "feedback": "good"}''
           then Some (JObj [(ascii ''score'', JInt 150),
                            (ascii ''feedback'', JStr (ascii ''good''))])
         else if t = ascii ''{"score": 50, "feedback": "a```b"}''
           then Some (JObj [(ascii ''score'', JInt 50),
                            (ascii ''feedback'', JStr (ascii ''a```b''))])
         else if t = ascii ''{"score": 50, "feedback": "ab"}''
           then Some (JObj [(ascii ''score'', JInt 50),
                            (ascii ''feedback'', JStr (ascii ''ab''))])
         else if t = ascii ''{"score": {"v": 90}}''
           then Some (JObj [(ascii ''score'', JObj [(ascii ''v'', JInt 90)])])
         else None)\<close>

definition sample_db :: database where
  "sample_db =
     \<lparr>bind_score =
        (\<lambda>v. case v of
               JNull \<Rightarrow> Inr None
             | JInt n \<Rightarrow>
                 if - 9223372036854775808 \<le> n \<and> n \<le> 9223372036854775807 then Inr (Some n)
                 else Inl BindError
             | _ \<Rightarrow> Inl BindError),
      bind_feedback =
        (\<lambda>v. case v of
               JNull \<Rightarrow> Inr None
             | JStr t \<Rightarrow> Inr (Some t)
             | _ \<Rightarrow> Inl BindError)\<rparr>"

definition sample_problem :: problem where
  "sample_problem =
     \<lparr>p_id = 1, p_title = Some (ascii ''Sum''), p_description = Some (ascii ''Add two numbers''),
      p_ai_prompt = Some (ascii ''prints the sum''), p_chapter = Some (ascii ''ch1''),
      p_course_name = None\<rparr>"

definition sample_catalog :: catalog where
  "sample_catalog = [(ascii ''python'', [sample_problem])]"

definition sample_request :: submit_request where
  "sample_request =
     \<lparr>req_student_id = 1, req_problem_id = 1, req_code_answer = ascii ''print(1+2)''\<rparr>"

definition sample_row :: submission where
  "sample_row =
     \<lparr>sub_id = 1, student_id = 1, problem_id = 1, code_answer = ascii ''print(1+2)'',
      ai_feedback = Some QUEUED_MESSAGE, score = None, status = GRADING, created_at = 10\<rparr>"

definition sample_prompt :: prompt where
  "sample_prompt =
     Prompt (ascii ''Sum'') (ascii ''Add two numbers'') (ascii ''prints the sum'')
       (ascii ''print(1+2)'')"

text \<open>One submission has been made in a fresh system.\<close>

definition sample_submitted :: state where
  "sample_submitted = snd (submit sample_catalog 10 sample_request init_state)"

text \<open>The worker has taken the one job of a fresh system and waits for the grader.\<close>

definition sample_calling :: state where
  "sample_calling = worker_dequeue (snd (submit sample_catalog 10 sample_request init_state))"

text \<open>The grader has answered with score 90, and the worker sleeps.\<close>

definition sample_graded :: state where
  \<open>sample_graded =
     worker_receive sample_db sample_loads (Inr (ascii ''{"score":90,"feedback":"good"}''))
       sample_calling\<close>

text \<open>A job waits whose row is gone from the store; it is the only unfinished task.\<close>

definition orphan_state :: state where
  "orphan_state =
     init_state\<lparr>submission_queue := [(7, sample_problem, ascii ''print(1+2)'')],
                unfinished_tasks := 1\<rparr>"

text \<open>The same job waits in front of the job of a submission that exists.\<close>

definition two_jobs_state :: state where
  "two_jobs_state =
     (let s = snd (submit sample_catalog 10 sample_request init_state)
      in s\<lparr>submission_queue := (7, sample_problem, ascii ''print(1+2)'') # submission_queue s,
           unfinished_tasks := 2\<rparr>)"

section \<open>Facts about text\<close>

lemmas sample_simps = sample_loads_def json_trim_def json_ws_def good_answer_def
  strip_fences_def strip_def isspace_def startswith_def FENCE_def FENCE_JSON_def ascii_def Let_def

lemma contains_intro: "contains old (a @ old @ b)"
proof (induction a)
  case Nil
  have sw: "startswith (old @ b) old" by (simp add: startswith_def)
  show ?case
  proof (cases "old @ b")
    case Nil
    then show ?thesis by simp
  next
    case (Cons c cs)
    with sw show ?thesis by simp
  qed
next
  case (Cons x a)
  then show ?case by simp
qed

lemma str_remove_free: "\<not> contains old s \<Longrightarrow> str_remove old s = s"
  by (induction s) (auto simp: startswith_def)

lemma startswith_FENCE_append:
  assumes "\<forall>c \<in> set post. c \<noteq> 96"
  shows "startswith (u @ post) FENCE \<longleftrightarrow> startswith u FENCE"
proof (cases u)
  case Nil
  with assms show ?thesis by (cases post) (auto simp: startswith_def FENCE_def ascii_def)
next
  case (Cons a u1)
  show ?thesis
  proof (cases u1)
    case Nil
    with Cons assms show ?thesis
      by (cases post) (auto simp: startswith_def FENCE_def ascii_def)
  next
    case (Cons b u2)
    show ?thesis
    proof (cases u2)
      case Nil
      with \<open>u = a # u1\<close> \<open>u1 = b # u2\<close> assms show ?thesis
        by (cases post) (auto simp: startswith_def FENCE_def ascii_def)
    next
      case (Cons c u3)
      with \<open>u = a # u1\<close> \<open>u1 = b # u2\<close> show ?thesis
        by (simp add: startswith_def FENCE_def ascii_def)
    qed
  qed
qed

lemma contains_FENCE_pre:
  "\<forall>c \<in> set pre. c \<noteq> 96 \<Longrightarrow> contains FENCE (pre @ v) = contains FENCE v"
  by (induction pre) (auto simp: startswith_def FENCE_def ascii_def)

lemma contains_FENCE_post:
  assumes "\<forall>c \<in> set post. c \<noteq> 96"
  shows "contains FENCE (u @ post) = contains FENCE u"
proof (induction u)
  case Nil
  from contains_FENCE_pre [OF assms, of "[]"] show ?case
    by (simp add: FENCE_def ascii_def)
next
  case (Cons a u)
  from startswith_FENCE_append [OF assms, of "a # u"] Cons show ?case by simp
qed

lemma str_remove_FENCE_end: "\<not> contains FENCE y \<Longrightarrow> str_remove FENCE (y @ FENCE) = y"
proof (induction y)
  case Nil
  show ?case by (simp add: FENCE_def ascii_def)
next
  case (Cons c cs)
  then have ih: "str_remove FENCE (cs @ FENCE) = cs" and ns: "\<not> startswith (c # cs) FENCE"
    by auto
  show ?case
  proof (cases "take (length FENCE) (c # cs @ FENCE) = FENCE")
    case False
    with ih show ?thesis by simp
  next
    case True
    from True ns have "cs = [] \<or> cs = [96]"
      by (cases cs; cases "tl cs") (auto simp: startswith_def FENCE_def ascii_def)
    moreover from True have "c = 96" by (simp add: FENCE_def ascii_def)
    ultimately show ?thesis by (auto simp: FENCE_def ascii_def)
  qed
qed

lemma no_FENCE_JSON_before_end: "\<not> contains FENCE y \<Longrightarrow> \<not> contains FENCE_JSON (y @ FENCE)"
proof (induction y)
  case Nil
  show ?case by (simp add: FENCE_def FENCE_JSON_def ascii_def startswith_def)
next
  case (Cons c cs)
  then have ih: "\<not> contains FENCE_JSON (cs @ FENCE)" and ns: "\<not> startswith (c # cs) FENCE"
    by auto
  from ns have "\<not> startswith (c # cs @ FENCE) FENCE_JSON"
    by (cases cs; cases "tl cs") (auto simp: startswith_def FENCE_def FENCE_JSON_def ascii_def)
  with ih show ?case by simp
qed

lemma strip_unchanged:
  assumes "s \<noteq> []" and "\<not> isspace (hd s)" and "\<not> isspace (last s)"
  shows "strip s = s"
proof -
  from assms(1,2) have "dropWhile isspace s = s" by (cases s) auto
  moreover from assms(1,3) have "dropWhile isspace (rev s) = rev s"
    by (cases "rev s") (auto simp: last_rev [symmetric] simp del: last_rev)
  ultimately show ?thesis by (simp add: strip_def)
qed

lemma strip_inside: "\<exists>a b. s = a @ strip s @ b"
proof -
  let ?d = "dropWhile isspace s"
  have "s = takeWhile isspace s @ ?d" by simp
  moreover have "?d = strip s @ rev (takeWhile isspace (rev ?d))"
    unfolding strip_def by (metis rev_append rev_rev_ident takeWhile_dropWhile_id)
  ultimately show ?thesis by metis
qed

lemma strip_fences_plain:
  assumes "\<not> contains FENCE t"
  shows "strip_fences t = strip t"
proof -
  have "\<not> startswith (strip t) FENCE"
  proof
    assume "startswith (strip t) FENCE"
    then have "strip t = FENCE @ drop 3 (strip t)"
      by (metis append_take_drop_id startswith_def length_Cons list.size(3) FENCE_def ascii_def
            length_map numeral_3_eq_3)
    moreover obtain a b where "t = a @ strip t @ b" using strip_inside by blast
    ultimately have "t = a @ FENCE @ (drop 3 (strip t) @ b)" by (metis append.assoc)
    then have "contains FENCE t" using contains_intro by metis
    with assms show False by simp
  qed
  then show ?thesis by (simp add: strip_fences_def)
qed

lemma strip_fences_wrapped:
  assumes "\<not> contains FENCE t" and "\<forall>c \<in> set pre. json_ws c" and "\<forall>c \<in> set post. json_ws c"
  shows "strip_fences (wrap_fence pre post t) = pre @ t @ post"
proof -
  let ?y = "pre @ t @ post"
  from assms(2,3) have p: "\<forall>c \<in> set pre. c \<noteq> 96" "\<forall>c \<in> set post. c \<noteq> 96"
    by (auto simp: json_ws_def)
  with assms(1) have free: "\<not> contains FENCE ?y"
    by (simp add: contains_FENCE_pre contains_FENCE_post)
  have w: "wrap_fence pre post t = FENCE_JSON @ ?y @ FENCE"
    by (simp add: wrap_fence_def)
  have "strip (FENCE_JSON @ ?y @ FENCE) = FENCE_JSON @ ?y @ FENCE"
    by (rule strip_unchanged) (simp_all add: FENCE_JSON_def FENCE_def ascii_def isspace_def)
  moreover have "startswith (FENCE_JSON @ ?y @ FENCE) FENCE"
    by (simp add: startswith_def FENCE_JSON_def FENCE_def ascii_def)
  moreover have "str_remove FENCE_JSON (FENCE_JSON @ ?y @ FENCE) = str_remove FENCE_JSON (?y @ FENCE)"
    by (simp add: FENCE_JSON_def ascii_def)
  moreover have "str_remove FENCE_JSON (?y @ FENCE) = ?y @ FENCE"
    using free by (intro str_remove_free no_FENCE_JSON_before_end)
  moreover have "str_remove FENCE (?y @ FENCE) = ?y"
    using free by (rule str_remove_FENCE_end)
  ultimately show ?thesis
    unfolding w strip_fences_def by (simp add: Let_def)
qed

lemma contains_sample: \<open>\<not> contains FENCE (ascii ''{"score":90,"feedback":"good"}'')\<close>
  by (simp add: FENCE_def ascii_def startswith_def)

section \<open>Parsing the response\<close>

text \<open>
  What lines 86 to 88 do right. Let \<open>t\<close> be a text in which the marker \<open>```\<close> does not
  occur, and let it stand between \<open>```json\<close> and \<open>```\<close>, with only JSON white space
  \<open>pre\<close> and \<open>post\<close> between the markers and the text. Then \<open>pre @ t @ post\<close> is handed
  to \<open>json.loads\<close>: the markers are gone and nothing else is. For a decoder that reads
  this padded text as it reads the stripped text (\<open>json.loads\<close> ignores white space
  around a JSON text), the fenced response and the bare one are parsed to the same
  result.
\<close>

theorem fenced_response_parses_alike:
  assumes "\<not> contains FENCE t"
    and "\<forall>c \<in> set pre. json_ws c" and "\<forall>c \<in> set post. json_ws c"
    and "loads (pre @ t @ post) = loads (strip t)"
  shows "strip_fences (wrap_fence pre post t) = pre @ t @ post \<and>
         parse_response loads (wrap_fence pre post t) = parse_response loads t"
  using assms by (simp add: parse_response_def strip_fences_wrapped strip_fences_plain)

theorem fenced_response_parses_alike_witness:
  \<open>strip_fences (wrap_fence [10] [10] (ascii ''{"score":90,"feedback":"good"}'')) =
      [10] @ ascii ''{"score":90,"feedback":"good"}'' @ [10] \<and>
    parse_response sample_loads (wrap_fence [10] [10] (ascii ''{"score":90,"feedback":"good"}'')) =
      parse_response sample_loads (ascii ''{"score":90,"feedback":"good"}'')\<close>
proof -
  have ws: "\<forall>c \<in> set [10]. json_ws c" by (simp add: json_ws_def)
  have l: \<open>sample_loads ([10] @ ascii ''{"score":90,"feedback":"good"}'' @ [10]) =
      sample_loads (strip (ascii ''{"score":90,"feedback":"good"}''))\<close>
    by (simp add: sample_loads_def json_trim_def json_ws_def strip_def isspace_def ascii_def)
  from fenced_response_parses_alike [OF contains_sample ws ws l] show ?thesis .
qed

text \<open>
  C5 at the JSON text \<open>{"score": 50, "feedback": "a```b"}\<close>, whose feedback holds the
  marker. Bare, the text is parsed to the feedback \<open>a```b\<close>. Between \<open>```json\<close> and
  \<open>```\<close> (a line end after the first and before the second) it is parsed to the
  feedback \<open>ab\<close>: \<open>replace\<close> deletes the marker inside the text along with the two
  around it.
\<close>

theorem fence_inside_text_is_deleted:
  \<open>parse_response sample_loads (wrap_fence [10] [10] (ascii ''{"score": 50, "feedback": "a```b"}'')) =
      Inr (JInt 50, JStr (ascii ''ab'')) \<and>
    parse_response sample_loads (ascii ''{"score": 50, "feedback": "a```b"}'') =
      Inr (JInt 50, JStr (ascii ''a```b'')) \<and>
    parse_response sample_loads (wrap_fence [10] [10] (ascii ''{"score": 50, "feedback": "a```b"}'')) \<noteq>
      parse_response sample_loads (ascii ''{"score": 50, "feedback": "a```b"}'')\<close>
  by (simp add: parse_response_def wrap_fence_def sample_simps unwrap_list_def dict_get_def)

section \<open>Facts about the store, the samples and the worker\<close>

lemma sample_calling_eq:
  "sample_calling =
     \<lparr>courses = [], classrooms = [], students = [], submissions = [sample_row],
      submission_queue = [], unfinished_tasks = 1, worker = Calling 1 sample_prompt\<rparr>"
  by (simp add: sample_calling_def submit_def PROBLEMS_DICT_def PROBLEMS_BY_COURSE_def
        sample_catalog_def sample_problem_def sample_request_def create_submission_def
        init_state_def fresh_id_def put_def worker_dequeue_def get_submission_def
        build_prompt_def sample_row_def sample_prompt_def Let_def)

lemma sample_calling_worker: "worker sample_calling = Calling 1 sample_prompt"
  by (simp add: sample_calling_eq)

lemma sample_calling_row: "get_submission (submissions sample_calling) 1 = Some sample_row"
  by (simp add: sample_calling_eq get_submission_def sample_row_def)

lemma get_update_submission:
  assumes "\<And>r. sub_id (f r) = sub_id r"
  shows "get_submission (update_submission i f rows) j =
     (if j = i then map_option f (get_submission rows i) else get_submission rows j)"
  by (induction rows) (auto simp: get_submission_def update_submission_def assms)

lemma sub_id_mark_failed [simp]: "sub_id (mark_failed r) = sub_id r"
  by (simp add: mark_failed_def)


lemma submissions_finally_block [simp]: "submissions (finally_block s) = submissions s"
  by (simp add: finally_block_def task_done_def)

lemma except_block_row:
  "get_submission (submissions s) sid = Some row \<Longrightarrow>
   get_submission (submissions (except_block sid s)) sid = Some (mark_failed row)"
  by (simp add: except_block_def get_update_submission)

lemma dict_get_object: "dict_get (JObj items) key dflt = Inr (items_get items key dflt)"
  by (simp add: dict_get_def items_get_def split: option.splits)

lemma parse_response_object:
  assumes "loads (strip_fences raw) = Some parsed" and "unwrap_list parsed = JObj items"
  shows "parse_response loads raw =
           Inr (items_get items (ascii ''score'') (JInt 0),
                items_get items (ascii ''feedback'') (JStr DEFAULT_FEEDBACK))"
  using assms by (simp add: parse_response_def dict_get_object)

lemma parse_response_no_object:
  assumes "loads (strip_fences raw) = Some parsed" and "\<forall>items. unwrap_list parsed \<noteq> JObj items"
  shows "\<exists>e. parse_response loads raw = Inl e"
  using assms by (cases "unwrap_list parsed") (simp_all add: parse_response_def dict_get_def)

lemma parse_response_undecoded:
  assumes "loads (strip_fences raw) = None"
  shows "\<exists>e. parse_response loads raw = Inl e"
  using assms by (simp add: parse_response_def)

text \<open>
  An answer that is no failed one is a text that decodes to an object (or to a list whose
  first element is one) whose score and feedback the database binds.
\<close>

lemma not_grading_fails:
  assumes "\<not> grading_fails db loads response"
  obtains raw parsed items sc fb where "response = Inr raw"
    and "loads (strip_fences raw) = Some parsed" and "unwrap_list parsed = JObj items"
    and "bind_score db (items_get items (ascii ''score'') (JInt 0)) = Inr sc"
    and "bind_feedback db (items_get items (ascii ''feedback'') (JStr DEFAULT_FEEDBACK)) = Inr fb"
  using assms
  by (auto simp: grading_fails_def split: sum.splits option.splits json.splits)

lemma grading_fails_cases:
  assumes "grading_fails db loads (Inr raw)"
  shows "(\<exists>e. parse_response loads raw = Inl e) \<or>
         (\<exists>sc fb e. parse_response loads raw = Inr (sc, fb) \<and>
            (bind_score db sc = Inl e \<or> bind_feedback db fb = Inl e))"
proof (cases "loads (strip_fences raw)")
  case None
  then show ?thesis using parse_response_undecoded by blast
next
  case (Some parsed)
  show ?thesis
  proof (cases "\<exists>items. unwrap_list parsed = JObj items")
    case False
    with Some show ?thesis using parse_response_no_object by blast
  next
    case True
    then obtain items where items: "unwrap_list parsed = JObj items" by blast
    from assms Some items show ?thesis
      by (auto simp: grading_fails_def parse_response_object [where loads = loads, OF Some items]
               split: sum.splits)
  qed
qed

lemma worker_receive_failure:
  assumes "worker s = Calling sid p" and "get_submission (submissions s) sid = Some row"
    and "grading_fails db loads response"
  shows "get_submission (submissions (worker_receive db loads response s)) sid =
           Some (mark_failed row)"
proof (cases response)
  case (Inl e)
  with assms show ?thesis by (simp add: worker_receive_def except_block_row)
next
  case (Inr raw)
  with assms(3) grading_fails_cases [of db loads raw] assms(1,2) show ?thesis
    by (auto simp: worker_receive_def apply_result_def except_block_row split: sum.splits)
qed

lemma worker_receive_stored:
  assumes "worker s = Calling sid p" and "get_submission (submissions s) sid = Some row"
    and "loads (strip_fences raw) = Some parsed" and "unwrap_list parsed = JObj items"
    and "bind_score db (items_get items (ascii ''score'') (JInt 0)) = Inr sc"
    and "bind_feedback db (items_get items (ascii ''feedback'') (JStr DEFAULT_FEEDBACK)) = Inr fb"
  shows "get_submission (submissions (worker_receive db loads (Inr raw) s)) sid =
           Some (row\<lparr>score := sc, ai_feedback := fb, status := COMPLETED\<rparr>)"
  using assms
  by (simp add: worker_receive_def apply_result_def parse_response_object get_update_submission)

lemma worker_receive_completed:
  assumes "worker s = Calling sid p" and "get_submission (submissions s) sid = Some row"
  shows "\<exists>row'. get_submission (submissions (worker_receive db loads response s)) sid = Some row' \<and>
               status row' = COMPLETED"
proof (cases "grading_fails db loads response")
  case True
  with assms show ?thesis by (simp add: worker_receive_failure mark_failed_def)
next
  case False
  then obtain raw parsed items sc fb where "response = Inr raw"
    and "loads (strip_fences raw) = Some parsed" and "unwrap_list parsed = JObj items"
    and "bind_score db (items_get items (ascii ''score'') (JInt 0)) = Inr sc"
    and "bind_feedback db (items_get items (ascii ''feedback'') (JStr DEFAULT_FEEDBACK)) = Inr fb"
    by (rule not_grading_fails)
  with assms show ?thesis by (simp add: worker_receive_stored)
qed

lemma worker_receive_sleeps:
  assumes "worker s = Calling sid p" and "0 < unfinished_tasks s"
  shows "worker (worker_receive db loads response s) = Sleeping"
  using assms
  by (auto simp: worker_receive_def apply_result_def except_block_def finally_block_def
        task_done_def split: sum.splits option.splits)

lemma worker_dequeue_prompt_failure:
  assumes "worker s = Idle" and "submission_queue s = (sid, problem_info, code) # rest"
    and "get_submission (submissions s) sid = Some row"
    and "build_prompt problem_info code = Inl e"
  shows "get_submission (submissions (worker_dequeue s)) sid = Some (mark_failed row)"
  using assms by (simp add: worker_dequeue_def except_block_row)

lemma sample_db_binds:
  "bind_score sample_db (JInt 0) = Inr (Some 0)"
  "bind_score sample_db (JInt 90) = Inr (Some 90)"
  "bind_score sample_db (JInt 150) = Inr (Some 150)"
  "bind_score sample_db (JObj items) = Inl BindError"
  "bind_feedback sample_db (JStr t) = Inr (Some t)"
  by (simp_all add: sample_db_def)

lemma loads_samples:
  \<open>sample_loads (strip_fences (ascii ''[{"score":90,"feedback":"good"}]'')) =
     Some (JList [good_answer])\<close>
  \<open>sample_loads (strip_fences (ascii ''{"score":90,"feedback":"good"}'')) = Some good_answer\<close>
  \<open>sample_loads (strip_fences (ascii ''[]'')) = Some (JList [])\<close>
  \<open>sample_loads (strip_fences (ascii ''{"score": 90}'')) = Some (JObj [(ascii ''score'', JInt 90)])\<close>
  \<open>sample_loads (strip_fences (ascii ''{"score": 150, "feedback": "good"}'')) =
     Some (JObj [(ascii ''score'', JInt 150), (ascii ''feedback'', JStr (ascii ''good''))])\<close>
  \<open>sample_loads (strip_fences (ascii ''{"score": {"v": 90}}'')) =
     Some (JObj [(ascii ''score'', JObj [(ascii ''v'', JInt 90)])])\<close>
  by (simp_all add: sample_loads_def json_trim_def json_ws_def strip_fences_def strip_def
        isspace_def startswith_def FENCE_def FENCE_JSON_def ascii_def Let_def)

lemma items_samples:
  "items_get [(ascii ''score'', JInt 90)] (ascii ''score'') d = JInt 90"
  "items_get [(ascii ''score'', JInt 90)] (ascii ''feedback'') d = d"
  "items_get [(ascii ''score'', JInt 90), (ascii ''feedback'', JStr (ascii ''good''))]
     (ascii ''score'') d = JInt 90"
  "items_get [(ascii ''score'', JInt 90), (ascii ''feedback'', JStr (ascii ''good''))]
     (ascii ''feedback'') d = JStr (ascii ''good'')"
  "items_get [(ascii ''score'', JInt 150), (ascii ''feedback'', JStr (ascii ''good''))]
     (ascii ''score'') d = JInt 150"
  "items_get [(ascii ''score'', JInt 150), (ascii ''feedback'', JStr (ascii ''good''))]
     (ascii ''feedback'') d = JStr (ascii ''good'')"
  "items_get [(ascii ''score'', JObj [(ascii ''v'', JInt 90)])] (ascii ''score'') d =
     JObj [(ascii ''v'', JInt 90)]"
  "items_get [] k d = d"
  by (simp_all add: items_get_def ascii_def)

lemma unwrap_samples:
  "unwrap_list (JObj items) = JObj items"
  "unwrap_list (JList (JObj items # xs)) = JObj items"
  "unwrap_list (JList []) = JObj []"
  by (simp_all add: unwrap_list_def)

text \<open>What the worker stores, in the sample state, for four answers.\<close>

lemma stored_good:
  \<open>get_submission (submissions
       (worker_receive sample_db sample_loads (Inr (ascii ''{"score":90,"feedback":"good"}''))
          sample_calling)) 1 =
     Some (sample_row\<lparr>score := Some 90, ai_feedback := Some (ascii ''good''),
                      status := COMPLETED\<rparr>)\<close>
  using worker_receive_stored
          [where loads = sample_loads and db = sample_db,
           OF sample_calling_worker sample_calling_row loads_samples(2)]
  by (simp add: good_answer_def unwrap_samples items_samples sample_db_binds)

lemma stored_150:
  \<open>get_submission (submissions
       (worker_receive sample_db sample_loads
          (Inr (ascii ''{"score": 150, "feedback": "good"}'')) sample_calling)) 1 =
     Some (sample_row\<lparr>score := Some 150, ai_feedback := Some (ascii ''good''),
                      status := COMPLETED\<rparr>)\<close>
  using worker_receive_stored
          [where loads = sample_loads and db = sample_db,
           OF sample_calling_worker sample_calling_row loads_samples(5)]
  by (simp add: unwrap_samples items_samples sample_db_binds)

lemma stored_missing_feedback:
  \<open>get_submission (submissions
       (worker_receive sample_db sample_loads (Inr (ascii ''{"score": 90}'')) sample_calling)) 1 =
     Some (sample_row\<lparr>score := Some 90, ai_feedback := Some DEFAULT_FEEDBACK,
                      status := COMPLETED\<rparr>)\<close>
  using worker_receive_stored
          [where loads = sample_loads and db = sample_db,
           OF sample_calling_worker sample_calling_row loads_samples(4)]
  by (simp add: unwrap_samples items_samples sample_db_binds)

lemma fails_samples:
  \<open>grading_fails sample_db sample_loads (Inl GraderError)\<close>
  \<open>grading_fails sample_db sample_loads (Inr (ascii ''{"score": {"v": 90}}''))\<close>
  by (simp_all add: grading_fails_def loads_samples unwrap_samples items_samples sample_db_binds)

lemma submit_after_death:
  "snd (submit sample_catalog 20 sample_request (worker_dequeue orphan_state)) =
     \<lparr>courses = [], classrooms = [], students = [],
      submissions = [sample_row\<lparr>created_at := 20\<rparr>],
      submission_queue = [(1, sample_problem\<lparr>p_course_name := Some (ascii ''python'')\<rparr>,
                           ascii ''print(1+2)'')],
      unfinished_tasks = 1, worker = Dead\<rparr>"
  by (simp add: orphan_state_def init_state_def worker_dequeue_def get_submission_def
        task_done_def finally_block_def submit_def PROBLEMS_DICT_def PROBLEMS_BY_COURSE_def
        sample_catalog_def sample_problem_def sample_request_def create_submission_def
        fresh_id_def put_def sample_row_def Let_def)

lemma two_jobs_state_eq:
  "two_jobs_state =
     \<lparr>courses = [], classrooms = [], students = [], submissions = [sample_row],
      submission_queue =
        [(7, sample_problem, ascii ''print(1+2)''),
         (1, sample_problem\<lparr>p_course_name := Some (ascii ''python'')\<rparr>, ascii ''print(1+2)'')],
      unfinished_tasks = 2, worker = Idle\<rparr>"
  by (simp add: two_jobs_state_def submit_def PROBLEMS_DICT_def PROBLEMS_BY_COURSE_def
        sample_catalog_def sample_problem_def sample_request_def create_submission_def
        init_state_def fresh_id_def put_def sample_row_def Let_def)

lemma two_jobs_calling:
  "worker_dequeue (worker_wake (worker_dequeue two_jobs_state)) =
     \<lparr>courses = [], classrooms = [], students = [], submissions = [sample_row],
      submission_queue = [], unfinished_tasks = 0, worker = Calling 1 sample_prompt\<rparr>"
  by (simp add: two_jobs_state_eq worker_dequeue_def worker_wake_def get_submission_def
        task_done_def finally_block_def build_prompt_def sample_problem_def sample_row_def
        sample_prompt_def)

lemma parse_good:
  \<open>parse_response sample_loads (ascii ''{"score":90,"feedback":"good"}'') =
     Inr (JInt 90, JStr (ascii ''good''))\<close>
  using parse_response_object [where loads = sample_loads, OF loads_samples(2)]
  by (simp add: good_answer_def unwrap_samples items_samples)

section \<open>What the worker stores\<close>

text \<open>
  C1, as amended. The worker waits for the grader's answer for a submission whose row
  exists. If the answer is a failed one (the call or \<open>response.text\<close> raised, the text
  cannot be decoded, the decoded value is no object, the database cannot bind the score
  or the feedback of the object), the row is stored with score 0, the fixed failure
  message and status \<open>completed\<close>. Missing fields are no such failure: an object whose
  values the database binds is stored with them, the default (0, "feedback generation
  failed") standing for a field it lacks. Whatever the answer is, a poll of the
  submission is answered with the row, now \<open>completed\<close>, and not with an error; and no
  exception leaves the loop as long as the queue counts an unfinished task.
\<close>

theorem worker_failure_completes_with_zero:
  assumes "worker s = Calling sid p" and "get_submission (submissions s) sid = Some row"
  shows "(grading_fails db loads response \<longrightarrow>
            get_submission (submissions (worker_receive db loads response s)) sid =
              Some (row\<lparr>score := Some 0, ai_feedback := Some FAILURE_MESSAGE,
                        status := COMPLETED\<rparr>)) \<and>
         (\<forall>raw parsed items sc fb.
            response = Inr raw \<and> loads (strip_fences raw) = Some parsed \<and>
            unwrap_list parsed = JObj items \<and>
            bind_score db (items_get items (ascii ''score'') (JInt 0)) = Inr sc \<and>
            bind_feedback db (items_get items (ascii ''feedback'') (JStr DEFAULT_FEEDBACK)) =
              Inr fb \<longrightarrow>
            get_submission (submissions (worker_receive db loads response s)) sid =
              Some (row\<lparr>score := sc, ai_feedback := fb, status := COMPLETED\<rparr>)) \<and>
         (\<exists>row'. check_submission sid (worker_receive db loads response s) = Inr row' \<and>
                 status row' = COMPLETED) \<and>
         (0 < unfinished_tasks s \<longrightarrow>
            worker (worker_receive db loads response s) = Sleeping)"
proof (intro conjI impI allI)
  assume "grading_fails db loads response"
  with assms show "get_submission (submissions (worker_receive db loads response s)) sid =
      Some (row\<lparr>score := Some 0, ai_feedback := Some FAILURE_MESSAGE, status := COMPLETED\<rparr>)"
    by (simp add: worker_receive_failure mark_failed_def)
next
  fix raw parsed items sc fb
  assume "response = Inr raw \<and> loads (strip_fences raw) = Some parsed \<and>
    unwrap_list parsed = JObj items \<and>
    bind_score db (items_get items (ascii ''score'') (JInt 0)) = Inr sc \<and>
    bind_feedback db (items_get items (ascii ''feedback'') (JStr DEFAULT_FEEDBACK)) = Inr fb"
  with assms show "get_submission (submissions (worker_receive db loads response s)) sid =
      Some (row\<lparr>score := sc, ai_feedback := fb, status := COMPLETED\<rparr>)"
    by (simp add: worker_receive_stored)
next
  from worker_receive_completed [OF assms, of db loads response]
  show "\<exists>row'. check_submission sid (worker_receive db loads response s) = Inr row' \<and>
      status row' = COMPLETED"
    by (auto simp: check_submission_def)
next
  assume "0 < unfinished_tasks s"
  with assms(1) show "worker (worker_receive db loads response s) = Sleeping"
    by (rule worker_receive_sleeps)
qed

theorem worker_failure_completes_with_zero_witness:
  \<open>get_submission (submissions
        (worker_receive sample_db sample_loads (Inl GraderError) sample_calling)) 1 =
      Some (sample_row\<lparr>score := Some 0, ai_feedback := Some FAILURE_MESSAGE,
                       status := COMPLETED\<rparr>) \<and>
    get_submission (submissions
        (worker_receive sample_db sample_loads (Inr (ascii ''{"score": {"v": 90}}''))
           sample_calling)) 1 =
      Some (sample_row\<lparr>score := Some 0, ai_feedback := Some FAILURE_MESSAGE,
                       status := COMPLETED\<rparr>) \<and>
    get_submission (submissions
        (worker_receive sample_db sample_loads (Inr (ascii ''{"score": 90}'')) sample_calling)) 1 =
      Some (sample_row\<lparr>score := Some 90, ai_feedback := Some DEFAULT_FEEDBACK,
                       status := COMPLETED\<rparr>) \<and>
    worker (worker_receive sample_db sample_loads (Inl GraderError) sample_calling) = Sleeping\<close>
proof -
  have u: "0 < unfinished_tasks sample_calling" by (simp add: sample_calling_eq)
  note t = worker_failure_completes_with_zero [OF sample_calling_worker sample_calling_row]
  from t [of sample_db sample_loads "Inl GraderError"] fails_samples(1) u
  have a: "get_submission (submissions
        (worker_receive sample_db sample_loads (Inl GraderError) sample_calling)) 1 =
      Some (sample_row\<lparr>score := Some 0, ai_feedback := Some FAILURE_MESSAGE,
                       status := COMPLETED\<rparr>) \<and>
    worker (worker_receive sample_db sample_loads (Inl GraderError) sample_calling) = Sleeping"
    by blast
  from t [of sample_db sample_loads \<open>Inr (ascii ''{"score": {"v": 90}}'')\<close>] fails_samples(2)
  have b: \<open>get_submission (submissions
        (worker_receive sample_db sample_loads (Inr (ascii ''{"score": {"v": 90}}''))
           sample_calling)) 1 =
      Some (sample_row\<lparr>score := Some 0, ai_feedback := Some FAILURE_MESSAGE,
                       status := COMPLETED\<rparr>)\<close>
    by blast
  have "bind_score sample_db (items_get [(ascii ''score'', JInt 90)] (ascii ''score'') (JInt 0)) =
      Inr (Some 90)"
    and "bind_feedback sample_db
      (items_get [(ascii ''score'', JInt 90)] (ascii ''feedback'') (JStr DEFAULT_FEEDBACK)) =
      Inr (Some DEFAULT_FEEDBACK)"
    by (simp_all add: items_samples sample_db_binds)
  with t [of sample_db sample_loads \<open>Inr (ascii ''{"score": 90}'')\<close>]
    loads_samples(4) unwrap_samples(1)
  have c: \<open>get_submission (submissions
        (worker_receive sample_db sample_loads (Inr (ascii ''{"score": 90}'')) sample_calling)) 1 =
      Some (sample_row\<lparr>score := Some 90, ai_feedback := Some DEFAULT_FEEDBACK,
                       status := COMPLETED\<rparr>)\<close>
    by blast
  from a b c show ?thesis by blast
qed

text \<open>
  C1 as stated counts missing fields among the failures. The answer \<open>{"score": 90}\<close>
  lacks \<open>feedback\<close>; the row is stored with score 90 and the default feedback, not with
  score 0 and the failure message.
\<close>

theorem missing_field_counterexample:
  \<open>map_option score (get_submission (submissions
       (worker_receive sample_db sample_loads (Inr (ascii ''{"score": 90}'')) sample_calling)) 1) =
      Some (Some 90) \<and>
    map_option ai_feedback (get_submission (submissions
       (worker_receive sample_db sample_loads (Inr (ascii ''{"score": 90}'')) sample_calling)) 1) =
      Some (Some DEFAULT_FEEDBACK) \<and>
    DEFAULT_FEEDBACK \<noteq> FAILURE_MESSAGE\<close>
  by (simp add: stored_missing_feedback DEFAULT_FEEDBACK_def FAILURE_MESSAGE_def)

text \<open>
  C2, as amended. After a failed answer the stored score is 0. After any other answer
  it is what the database keeps for the value under \<open>score\<close> of the decoded object (for
  0 when the object has no such key); the worker compares it with no bound. So a score
  that is an integer from 0 to 100, kept by the database as it is, is stored within
  these bounds.
\<close>

theorem stored_score_is_graders_score:
  assumes "worker s = Calling sid p" and "get_submission (submissions s) sid = Some row"
  shows "(grading_fails db loads response \<longrightarrow>
            map_option score (get_submission (submissions (worker_receive db loads response s)) sid) =
              Some (Some 0)) \<and>
         (\<forall>raw parsed items sc fb.
            response = Inr raw \<and> loads (strip_fences raw) = Some parsed \<and>
            unwrap_list parsed = JObj items \<and>
            bind_score db (items_get items (ascii ''score'') (JInt 0)) = Inr sc \<and>
            bind_feedback db (items_get items (ascii ''feedback'') (JStr DEFAULT_FEEDBACK)) =
              Inr fb \<longrightarrow>
            map_option score (get_submission (submissions (worker_receive db loads response s)) sid) =
              Some sc) \<and>
         (\<forall>raw parsed items n fb.
            response = Inr raw \<and> loads (strip_fences raw) = Some parsed \<and>
            unwrap_list parsed = JObj items \<and>
            items_get items (ascii ''score'') (JInt 0) = JInt n \<and> 0 \<le> n \<and> n \<le> 100 \<and>
            bind_score db (JInt n) = Inr (Some n) \<and>
            bind_feedback db (items_get items (ascii ''feedback'') (JStr DEFAULT_FEEDBACK)) =
              Inr fb \<longrightarrow>
            (\<exists>m. map_option score
                   (get_submission (submissions (worker_receive db loads response s)) sid) =
                   Some (Some m) \<and> 0 \<le> m \<and> m \<le> 100))"
proof (intro conjI impI allI)
  assume "grading_fails db loads response"
  with assms show "map_option score
      (get_submission (submissions (worker_receive db loads response s)) sid) = Some (Some 0)"
    by (simp add: worker_receive_failure mark_failed_def)
next
  fix raw parsed items sc fb
  assume "response = Inr raw \<and> loads (strip_fences raw) = Some parsed \<and>
    unwrap_list parsed = JObj items \<and>
    bind_score db (items_get items (ascii ''score'') (JInt 0)) = Inr sc \<and>
    bind_feedback db (items_get items (ascii ''feedback'') (JStr DEFAULT_FEEDBACK)) = Inr fb"
  with assms show "map_option score
      (get_submission (submissions (worker_receive db loads response s)) sid) = Some sc"
    by (simp add: worker_receive_stored)
next
  fix raw parsed items n fb
  assume "response = Inr raw \<and> loads (strip_fences raw) = Some parsed \<and>
    unwrap_list parsed = JObj items \<and>
    items_get items (ascii ''score'') (JInt 0) = JInt n \<and> 0 \<le> n \<and> n \<le> 100 \<and>
    bind_score db (JInt n) = Inr (Some n) \<and>
    bind_feedback db (items_get items (ascii ''feedback'') (JStr DEFAULT_FEEDBACK)) = Inr fb"
  with assms show "\<exists>m. map_option score
      (get_submission (submissions (worker_receive db loads response s)) sid) = Some (Some m) \<and>
      0 \<le> m \<and> m \<le> 100"
    by (simp add: worker_receive_stored)
qed

theorem stored_score_is_graders_score_witness:
  \<open>map_option score (get_submission (submissions
       (worker_receive sample_db sample_loads (Inl GraderError) sample_calling)) 1) =
      Some (Some 0) \<and>
    map_option score (get_submission (submissions
       (worker_receive sample_db sample_loads (Inr (ascii ''{"score":90,"feedback":"good"}''))
          sample_calling)) 1) = Some (Some 90)\<close>
proof -
  note t = stored_score_is_graders_score [OF sample_calling_worker sample_calling_row]
  from t [of sample_db sample_loads "Inl GraderError"] fails_samples(1)
  have a: "map_option score (get_submission (submissions
       (worker_receive sample_db sample_loads (Inl GraderError) sample_calling)) 1) =
      Some (Some 0)"
    by blast
  let ?items = "[(ascii ''score'', JInt 90), (ascii ''feedback'', JStr (ascii ''good''))]"
  have "sample_loads (strip_fences (ascii ''{\"score\":90,\"feedback\":\"good\"}'')) =
      Some (JObj ?items)"
    using loads_samples(2) by (simp add: good_answer_def)
  moreover have "bind_score sample_db (items_get ?items (ascii ''score'') (JInt 0)) = Inr (Some 90)"
    and "bind_feedback sample_db (items_get ?items (ascii ''feedback'') (JStr DEFAULT_FEEDBACK)) =
      Inr (Some (ascii ''good''))"
    by (simp_all add: items_samples sample_db_binds)
  ultimately have \<open>map_option score (get_submission (submissions
       (worker_receive sample_db sample_loads (Inr (ascii ''{"score":90,"feedback":"good"}''))
          sample_calling)) 1) = Some (Some 90)\<close>
    using t [of sample_db sample_loads \<open>Inr (ascii ''{"score":90,"feedback":"good"}'')\<close>]
      unwrap_samples(1)
    by blast
  with a show ?thesis by blast
qed

text \<open>
  C2 as stated fails for the answer \<open>{"score": 150, "feedback": "good"}\<close>: the row is
  completed with score 150.
\<close>

theorem score_above_100_counterexample:
  \<open>map_option status (get_submission (submissions
       (worker_receive sample_db sample_loads
          (Inr (ascii ''{"score": 150, "feedback": "good"}'')) sample_calling)) 1) =
      Some COMPLETED \<and>
    map_option score (get_submission (submissions
       (worker_receive sample_db sample_loads
          (Inr (ascii ''{"score": 150, "feedback": "good"}'')) sample_calling)) 1) =
      Some (Some 150) \<and>
    \<not> (150 :: int) \<le> 100\<close>
  by (simp add: stored_150)

section \<open>The missing row\<close>

text \<open>
  C3 at the state \<open>orphan_state\<close>: the only job names a row that is gone. The code
  calls \<open>task_done()\<close> before \<open>continue\<close> and again in \<open>finally\<close>; the second call
  raises \<open>ValueError\<close>, which ends the worker. The store is unchanged, but a job that is
  submitted afterwards stays in the queue: the worker takes no further job.
\<close>

theorem missing_row_ends_worker:
  "worker (worker_dequeue orphan_state) = Dead \<and>
   submissions (worker_dequeue orphan_state) = submissions orphan_state \<and>
   submission_queue (snd (submit sample_catalog 20 sample_request (worker_dequeue orphan_state)))
     \<noteq> [] \<and>
   worker_dequeue (snd (submit sample_catalog 20 sample_request (worker_dequeue orphan_state))) =
     snd (submit sample_catalog 20 sample_request (worker_dequeue orphan_state))"
proof -
  have "worker (worker_dequeue orphan_state) = Dead \<and>
      submissions (worker_dequeue orphan_state) = submissions orphan_state"
    by (simp add: orphan_state_def init_state_def worker_dequeue_def get_submission_def
          task_done_def finally_block_def)
  moreover have "submission_queue
      (snd (submit sample_catalog 20 sample_request (worker_dequeue orphan_state))) \<noteq> []"
    by (simp add: submit_after_death)
  moreover have "worker_dequeue
      (snd (submit sample_catalog 20 sample_request (worker_dequeue orphan_state))) =
      snd (submit sample_catalog 20 sample_request (worker_dequeue orphan_state))"
    unfolding submit_after_death by (simp add: worker_dequeue_def)
  ultimately show ?thesis by blast
qed

text \<open>
  C4 at the same state, and at \<open>two_jobs_state\<close>. After the skipped job of
  \<open>orphan_state\<close> the worker does not sleep. In \<open>two_jobs_state\<close> the skipped job is
  followed by the sleep, but it has counted down two tasks: the next job is graded, its
  score 90 is stored, and \<open>task_done()\<close> raises before the sleep.
\<close>

theorem no_sleep_after_task_done_error:
  \<open>worker (worker_dequeue orphan_state) \<noteq> Sleeping \<and>
    worker (worker_dequeue two_jobs_state) = Sleeping \<and>
    map_option score (get_submission (submissions
       (worker_receive sample_db sample_loads (Inr (ascii ''{"score":90,"feedback":"good"}''))
          (worker_dequeue (worker_wake (worker_dequeue two_jobs_state))))) 1) = Some (Some 90) \<and>
    worker (worker_receive sample_db sample_loads (Inr (ascii ''{"score":90,"feedback":"good"}''))
          (worker_dequeue (worker_wake (worker_dequeue two_jobs_state)))) = Dead\<close>
proof -
  have "worker (worker_dequeue orphan_state) \<noteq> Sleeping"
    by (simp add: orphan_state_def init_state_def worker_dequeue_def get_submission_def
          task_done_def finally_block_def)
  moreover have "worker (worker_dequeue two_jobs_state) = Sleeping"
    by (simp add: two_jobs_state_eq worker_dequeue_def get_submission_def
          task_done_def finally_block_def sample_row_def)
  moreover have \<open>map_option score (get_submission (submissions
       (worker_receive sample_db sample_loads (Inr (ascii ''{"score":90,"feedback":"good"}''))
          (worker_dequeue (worker_wake (worker_dequeue two_jobs_state))))) 1) = Some (Some 90) \<and>
    worker (worker_receive sample_db sample_loads (Inr (ascii ''{"score":90,"feedback":"good"}''))
          (worker_dequeue (worker_wake (worker_dequeue two_jobs_state)))) = Dead\<close>
    by (simp add: two_jobs_calling worker_receive_def parse_good apply_result_def
          sample_db_binds get_submission_def update_submission_def sample_row_def
          finally_block_def task_done_def)
  ultimately show ?thesis by blast
qed

section \<open>List answers\<close>

lemma parse_response_list:
  assumes "loads (strip_fences raw) = Some (JList (x # xs))"
  shows "parse_response loads raw =
           (case dict_get x (ascii ''score'') (JInt 0) of
              Inl e \<Rightarrow> Inl e
            | Inr sc \<Rightarrow>
                (case dict_get x (ascii ''feedback'') (JStr DEFAULT_FEEDBACK) of
                   Inl e \<Rightarrow> Inl e
                 | Inr fb \<Rightarrow> Inr (sc, fb)))"
  using assms by (simp add: parse_response_def unwrap_list_def)

lemma parse_response_list_object:
  assumes "loads (strip_fences raw1) = Some (JList (JObj items # xs))"
    and "loads (strip_fences raw2) = Some (JObj items)"
  shows "parse_response loads raw1 = parse_response loads raw2"
  using assms by (simp add: parse_response_def unwrap_list_def)

lemma parse_response_empty_list:
  assumes "loads (strip_fences raw) = Some (JList [])"
  shows "parse_response loads raw = Inr (JInt 0, JStr DEFAULT_FEEDBACK)"
  using assms by (simp add: parse_response_def unwrap_list_def dict_get_def)

lemma grading_fails_list_no_object:
  assumes "loads (strip_fences raw) = Some (JList (x # xs))" and "\<forall>items. x \<noteq> JObj items"
  shows "grading_fails db loads (Inr raw)"
  using assms by (cases x) (simp_all add: grading_fails_def unwrap_list_def)

text \<open>
  C6. When the decoded response is a list, the score and the feedback are read from its
  first element: if that is an object, its score and feedback (as the database binds
  them) are stored, exactly as for the object alone; if it is no object, the answer is a
  failed one. So \<open>[{"score":90,"feedback":"good"}]\<close> is stored as
  \<open>{"score":90,"feedback":"good"}\<close> is, with score 90 and feedback \<open>good\<close>. An empty
  list is read as an empty object: nothing is raised, and the row is stored with score 0
  and the default feedback.
\<close>

theorem list_response_uses_first_element:
  assumes "worker s = Calling sid p" and "get_submission (submissions s) sid = Some row"
  shows "(\<forall>raw items xs sc fb.
            loads (strip_fences raw) = Some (JList (JObj items # xs)) \<and>
            bind_score db (items_get items (ascii ''score'') (JInt 0)) = Inr sc \<and>
            bind_feedback db (items_get items (ascii ''feedback'') (JStr DEFAULT_FEEDBACK)) =
              Inr fb \<longrightarrow>
            parse_response loads raw =
              Inr (items_get items (ascii ''score'') (JInt 0),
                   items_get items (ascii ''feedback'') (JStr DEFAULT_FEEDBACK)) \<and>
            get_submission (submissions (worker_receive db loads (Inr raw) s)) sid =
              Some (row\<lparr>score := sc, ai_feedback := fb, status := COMPLETED\<rparr>)) \<and>
         (\<forall>raw1 raw2 items xs.
            loads (strip_fences raw1) = Some (JList (JObj items # xs)) \<and>
            loads (strip_fences raw2) = Some (JObj items) \<longrightarrow>
            parse_response loads raw1 = parse_response loads raw2 \<and>
            worker_receive db loads (Inr raw1) s = worker_receive db loads (Inr raw2) s) \<and>
         (\<forall>raw x xs.
            loads (strip_fences raw) = Some (JList (x # xs)) \<and> (\<forall>items. x \<noteq> JObj items) \<longrightarrow>
            get_submission (submissions (worker_receive db loads (Inr raw) s)) sid =
              Some (row\<lparr>score := Some 0, ai_feedback := Some FAILURE_MESSAGE,
                        status := COMPLETED\<rparr>)) \<and>
         (\<forall>raw. loads (strip_fences raw) = Some (JList []) \<and>
            bind_score db (JInt 0) = Inr (Some 0) \<and>
            bind_feedback db (JStr DEFAULT_FEEDBACK) = Inr (Some DEFAULT_FEEDBACK) \<longrightarrow>
            parse_response loads raw = Inr (JInt 0, JStr DEFAULT_FEEDBACK) \<and>
            \<not> grading_fails db loads (Inr raw) \<and>
            get_submission (submissions (worker_receive db loads (Inr raw) s)) sid =
              Some (row\<lparr>score := Some 0, ai_feedback := Some DEFAULT_FEEDBACK,
                        status := COMPLETED\<rparr>))"
proof (intro conjI allI impI)
  fix raw items xs sc fb
  assume a: "loads (strip_fences raw) = Some (JList (JObj items # xs)) \<and>
    bind_score db (items_get items (ascii ''score'') (JInt 0)) = Inr sc \<and>
    bind_feedback db (items_get items (ascii ''feedback'') (JStr DEFAULT_FEEDBACK)) = Inr fb"
  then have l: "loads (strip_fences raw) = Some (JList (JObj items # xs))" by simp
  have u: "unwrap_list (JList (JObj items # xs)) = JObj items" by (simp add: unwrap_list_def)
  from parse_response_object [where loads = loads, OF l u]
  show "parse_response loads raw =
      Inr (items_get items (ascii ''score'') (JInt 0),
           items_get items (ascii ''feedback'') (JStr DEFAULT_FEEDBACK))" .
  from a worker_receive_stored [where loads = loads and db = db, OF assms l u]
  show "get_submission (submissions (worker_receive db loads (Inr raw) s)) sid =
      Some (row\<lparr>score := sc, ai_feedback := fb, status := COMPLETED\<rparr>)"
    by simp
next
  fix raw1 raw2 items xs
  assume "loads (strip_fences raw1) = Some (JList (JObj items # xs)) \<and>
    loads (strip_fences raw2) = Some (JObj items)"
  then show p: "parse_response loads raw1 = parse_response loads raw2"
    by (simp add: parse_response_list_object)
  from assms(1) show "worker_receive db loads (Inr raw1) s = worker_receive db loads (Inr raw2) s"
    by (simp add: worker_receive_def p)
next
  fix raw x xs
  assume "loads (strip_fences raw) = Some (JList (x # xs)) \<and> (\<forall>items. x \<noteq> JObj items)"
  then have "grading_fails db loads (Inr raw)"
    by (simp add: grading_fails_list_no_object)
  with assms show "get_submission (submissions (worker_receive db loads (Inr raw) s)) sid =
      Some (row\<lparr>score := Some 0, ai_feedback := Some FAILURE_MESSAGE, status := COMPLETED\<rparr>)"
    by (simp add: worker_receive_failure mark_failed_def)
next
  fix raw
  assume a: "loads (strip_fences raw) = Some (JList []) \<and>
    bind_score db (JInt 0) = Inr (Some 0) \<and>
    bind_feedback db (JStr DEFAULT_FEEDBACK) = Inr (Some DEFAULT_FEEDBACK)"
  then have l: "loads (strip_fences raw) = Some (JList [])" by simp
  have u: "unwrap_list (JList []) = JObj []" by (simp add: unwrap_list_def)
  from l show "parse_response loads raw = Inr (JInt 0, JStr DEFAULT_FEEDBACK)"
    by (rule parse_response_empty_list)
  from a show "\<not> grading_fails db loads (Inr raw)"
    by (simp add: grading_fails_def u items_get_def)
  from a worker_receive_stored
         [where loads = loads and db = db and sc = "Some 0" and fb = "Some DEFAULT_FEEDBACK",
          OF assms l u]
  show "get_submission (submissions (worker_receive db loads (Inr raw) s)) sid =
      Some (row\<lparr>score := Some 0, ai_feedback := Some DEFAULT_FEEDBACK, status := COMPLETED\<rparr>)"
    by (simp add: items_get_def)
qed

theorem list_response_uses_first_element_witness:
  \<open>parse_response sample_loads (ascii ''[{"score":90,"feedback":"good"}]'') =
      Inr (JInt 90, JStr (ascii ''good'')) \<and>
    get_submission (submissions
        (worker_receive sample_db sample_loads (Inr (ascii ''[{"score":90,"feedback":"good"}]''))
           sample_calling)) 1 =
      Some (sample_row\<lparr>score := Some 90, ai_feedback := Some (ascii ''good''),
                       status := COMPLETED\<rparr>) \<and>
    worker_receive sample_db sample_loads (Inr (ascii ''[{"score":90,"feedback":"good"}]''))
        sample_calling =
      worker_receive sample_db sample_loads (Inr (ascii ''{"score":90,"feedback":"good"}''))
        sample_calling \<and>
    parse_response sample_loads (ascii ''[]'') = Inr (JInt 0, JStr DEFAULT_FEEDBACK) \<and>
    get_submission (submissions
        (worker_receive sample_db sample_loads (Inr (ascii ''[]'')) sample_calling)) 1 =
      Some (sample_row\<lparr>score := Some 0, ai_feedback := Some DEFAULT_FEEDBACK,
                       status := COMPLETED\<rparr>)\<close>
proof -
  let ?items = "[(ascii ''score'', JInt 90), (ascii ''feedback'', JStr (ascii ''good''))]"
  note t = list_response_uses_first_element
             [OF sample_calling_worker sample_calling_row, of sample_loads sample_db]
  have l1: "sample_loads (strip_fences (ascii ''[{\"score\":90,\"feedback\":\"good\"}]'')) =
      Some (JList (JObj ?items # []))"
    and l2: "sample_loads (strip_fences (ascii ''{\"score\":90,\"feedback\":\"good\"}'')) =
      Some (JObj ?items)"
    using loads_samples(1,2) by (simp_all add: good_answer_def)
  have b: "bind_score sample_db (items_get ?items (ascii ''score'') (JInt 0)) = Inr (Some 90)"
    "bind_feedback sample_db (items_get ?items (ascii ''feedback'') (JStr DEFAULT_FEEDBACK)) =
      Inr (Some (ascii ''good''))"
    "bind_score sample_db (JInt 0) = Inr (Some 0)"
    "bind_feedback sample_db (JStr DEFAULT_FEEDBACK) = Inr (Some DEFAULT_FEEDBACK)"
    by (simp_all add: items_samples sample_db_binds)
  from t l1 b(1,2)
  have \<open>parse_response sample_loads (ascii ''[{"score":90,"feedback":"good"}]'') =
      Inr (items_get ?items (ascii ''score'') (JInt 0),
           items_get ?items (ascii ''feedback'') (JStr DEFAULT_FEEDBACK)) \<and>
    get_submission (submissions
        (worker_receive sample_db sample_loads (Inr (ascii ''[{"score":90,"feedback":"good"}]''))
           sample_calling)) 1 =
      Some (sample_row\<lparr>score := Some 90, ai_feedback := Some (ascii ''good''),
                       status := COMPLETED\<rparr>)\<close>
    by blast
  then have first: \<open>parse_response sample_loads (ascii ''[{"score":90,"feedback":"good"}]'') =
      Inr (JInt 90, JStr (ascii ''good'')) \<and>
    get_submission (submissions
        (worker_receive sample_db sample_loads (Inr (ascii ''[{"score":90,"feedback":"good"}]''))
           sample_calling)) 1 =
      Some (sample_row\<lparr>score := Some 90, ai_feedback := Some (ascii ''good''),
                       status := COMPLETED\<rparr>)\<close>
    by (simp only: items_samples)
  from t l1 l2
  have same: \<open>worker_receive sample_db sample_loads
        (Inr (ascii ''[{"score":90,"feedback":"good"}]'')) sample_calling =
      worker_receive sample_db sample_loads (Inr (ascii ''{"score":90,"feedback":"good"}''))
        sample_calling\<close>
    by blast
  from t loads_samples(3) b(3,4)
  have \<open>parse_response sample_loads (ascii ''[]'') = Inr (JInt 0, JStr DEFAULT_FEEDBACK) \<and>
    get_submission (submissions
        (worker_receive sample_db sample_loads (Inr (ascii ''[]'')) sample_calling)) 1 =
      Some (sample_row\<lparr>score := Some 0, ai_feedback := Some DEFAULT_FEEDBACK,
                       status := COMPLETED\<rparr>)\<close>
    by blast
  with first same show ?thesis by blast
qed

section \<open>Facts about the catalog\<close>

lemma PROBLEMS_DICT_None:
  "PROBLEMS_DICT raw_data pid = None \<longleftrightarrow>
   pid \<notin> p_id ` (\<Union>(name, p_list) \<in> set raw_data. set p_list)"
  unfolding PROBLEMS_DICT_def PROBLEMS_BY_COURSE_def
  by (force simp: map_of_eq_None_iff image_iff split: prod.splits)

section \<open>Submitting\<close>

text \<open>
  C10. A submit request whose problem id belongs to no problem of the catalog is answered
  with HTTP 404, and the state stays as it was: no row is created, no job is enqueued.
\<close>

theorem submit_unknown_problem:
  assumes "req_problem_id req \<notin> p_id ` (\<Union>(name, p_list) \<in> set raw_data. set p_list)"
  shows "submit raw_data now req s = (Inl (HTTPException 404), s)"
  using assms by (simp add: submit_def PROBLEMS_DICT_None [symmetric])

theorem submit_unknown_problem_witness:
  "submit sample_catalog 5 \<lparr>req_student_id = 1, req_problem_id = 2, req_code_answer = []\<rparr>
     init_state = (Inl (HTTPException 404), init_state)"
  using submit_unknown_problem
    [of "\<lparr>req_student_id = 1, req_problem_id = 2, req_code_answer = []\<rparr>" sample_catalog 5
        init_state]
  by (simp add: sample_catalog_def sample_problem_def)

end
